theory Spec2Isabelle
  imports Complex_Main "HOL-Library.Code_Target_Nat"
begin

section \<open>The sales sheet normaliser\<close>

text \<open>
  The program is one script, \<open>streamlit_app.py\<close>. It reads a sheet of an Excel workbook
  with two header rows into a pandas frame whose cells are kept as Python objects
  (\<open>dtype=object\<close>), and normalises it: the header is flattened, the first 16 columns
  get the fixed labels of \<open>FINAL_COLS\<close>, the strings are cleaned, empty rows are dropped,
  the dates are parsed, the store names are cut to their last four characters, ten columns
  are made numeric, and only the rows with positive gross sales are kept.

  This theory embeds the six helper functions and the part of the script between the
  reading of the sheet and the preview, with the exceptions it can raise as values.
  pandas is not part of the program. Its frames are modelled here as far as the script
  uses them (labels, dtypes, rows, assignment of a column, selection of rows), with the
  behaviour of pandas 1.x and 2.x, where \<open>astype(str)\<close> writes the text of every
  element, missing markers included. What its parsers read in a text is left open: they
  are parameters of the model, and so is the text Python prints for a number.
\<close>

section \<open>Python text\<close>

text \<open>
  A Python \<open>str\<close> is a sequence of Unicode code points, and \<open>len\<close>, slicing and
  \<open>strip\<close> count code points. A text is therefore a list of code points (natural
  numbers), not a list of bytes.
\<close>

type_synonym pystr = "nat list"

definition lit :: "string \<Rightarrow> pystr" where
  "lit s = map of_char s"

text \<open>The code points \<open>str.strip()\<close> removes (those with \<open>str.isspace()\<close>).\<close>

definition isspace :: "nat \<Rightarrow> bool" where
  "isspace c \<longleftrightarrow>
     (9 \<le> c \<and> c \<le> 13) \<or> (28 \<le> c \<and> c \<le> 32) \<or> c = 133 \<or> c = 160 \<or> c = 5760 \<or>
     (8192 \<le> c \<and> c \<le> 8202) \<or> c = 8232 \<or> c = 8233 \<or> c = 8239 \<or> c = 8287 \<or> c = 12288"

definition strip :: "pystr \<Rightarrow> pystr" where
  "strip s = rev (dropWhile isspace (rev (dropWhile isspace s)))"

text \<open>\<open>sep.join(parts)\<close>.\<close>

fun join :: "pystr \<Rightarrow> pystr list \<Rightarrow> pystr" where
  "join sep [] = []"
| "join sep [p] = p"
| "join sep (p # q # ps) = p @ sep @ join sep (q # ps)"

text \<open>\<open>s.replace(",", "")\<close>: every comma (code point 44) is removed.\<close>

definition replace_comma :: "pystr \<Rightarrow> pystr" where
  "replace_comma s = filter (\<lambda>c. c \<noteq> 44) s"

text \<open>\<open>s[-4:]\<close>: the last four code points, the whole text when it has fewer.\<close>

definition last4 :: "pystr \<Rightarrow> pystr" where
  "last4 s = drop (length s - 4) s"

section \<open>Cells, series and frames\<close>

text \<open>
  The objects a cell or a header label can hold. \<open>Num\<close> is a number that is not NaN (the
  number type \<open>'n\<close> is left open: the program only compares numbers with zero),
  \<open>Ts\<close> a timestamp, \<open>Obj\<close> any other Python object, known by the text \<open>str()\<close>
  gives for it. \<open>PyNone\<close>, \<open>NaN\<close>, \<open>NA\<close> (\<open>pd.NA\<close>) and \<open>NaT\<close> are the four
  missing markers of pandas.
\<close>

datatype timestamp = Timestamp (ts_year: int) (ts_month: nat) (ts_day: nat) (ts_nanos: nat)

datatype 'n cell = PyNone | NaN | NA | NaT | Str pystr | Num 'n | Ts timestamp | Obj pystr

fun isna :: "'n cell \<Rightarrow> bool" where
  "isna PyNone = True"
| "isna NaN = True"
| "isna NA = True"
| "isna NaT = True"
| "isna _ = False"

datatype dtype = Object | Numeric | Datetime

type_synonym 'n series = "dtype \<times> 'n cell list"

text \<open>
  What the program takes from pandas and Python without defining it: the text of a
  number and of a timestamp, and the two parsers. A parser sees the whole series it is
  called on (pandas may infer a format or a dtype from it) and answers for one element;
  \<open>None\<close> is the element \<open>errors="coerce"\<close> turns into a missing marker: with that
  argument pandas documents both calls as returning for every input, an element it
  cannot read becoming NaN or NaT. \<open>to_datetime\<close> takes the \<open>dayfirst\<close> flag first.
\<close>

record 'n pandas =
  str_num :: "'n \<Rightarrow> pystr"
  str_ts :: "timestamp \<Rightarrow> pystr"
  to_numeric :: "pystr list \<Rightarrow> pystr \<Rightarrow> 'n option"
  to_datetime :: "bool \<Rightarrow> 'n cell list \<Rightarrow> 'n cell \<Rightarrow> timestamp option"

text \<open>\<open>str(x)\<close>, which is also what \<open>astype(str)\<close> writes for each element.\<close>

fun py_str :: "'n pandas \<Rightarrow> 'n cell \<Rightarrow> pystr" where
  "py_str lib PyNone = lit ''None''"
| "py_str lib NaN = lit ''nan''"
| "py_str lib NA = lit ''<NA>''"
| "py_str lib NaT = lit ''NaT''"
| "py_str lib (Str s) = s"
| "py_str lib (Num x) = str_num lib x"
| "py_str lib (Ts t) = str_ts lib t"
| "py_str lib (Obj s) = s"

text \<open>
  A frame: its column labels, one dtype for each column, and its rows. In a frame of
  pandas every row has one cell for each column (\<open>wf_frame\<close>).
\<close>

datatype ('l, 'n) frame =
  DataFrame (columns: "'l list") (dtypes: "dtype list") (rows: "'n cell list list")

definition wf_frame :: "('l, 'n) frame \<Rightarrow> bool" where
  "wf_frame df \<longleftrightarrow>
     length (dtypes df) = length (columns df) \<and>
     list_all (\<lambda>r. length r = length (columns df)) (rows df)"

datatype error = ValueError_length_mismatch nat nat | KeyError pystr

fun index_of :: "'a \<Rightarrow> 'a list \<Rightarrow> nat option" where
  "index_of c [] = None"
| "index_of c (x # xs) =
     (if x = c then Some 0 else map_option Suc (index_of c xs))"

definition column_at :: "('l, 'n) frame \<Rightarrow> nat \<Rightarrow> 'n series" where
  "column_at df j = (dtypes df ! j, map (\<lambda>r. r ! j) (rows df))"

text \<open>\<open>df[c]\<close>, read: a \<open>KeyError\<close> when no column has the label.\<close>

definition get_col :: "(pystr, 'n) frame \<Rightarrow> pystr \<Rightarrow> error + 'n series" where
  "get_col df c =
     (case index_of c (columns df) of
        None \<Rightarrow> Inl (KeyError c)
      | Some j \<Rightarrow> Inr (column_at df j))"

text \<open>
  \<open>df[c] = s\<close>: the column is replaced, or added at the end when the label is new. The
  program only assigns series computed from the frame itself, which have one element
  for each row.
\<close>

definition set_col :: "(pystr, 'n) frame \<Rightarrow> pystr \<Rightarrow> 'n series \<Rightarrow> (pystr, 'n) frame" where
  "set_col df c s =
     (case index_of c (columns df) of
        Some j \<Rightarrow>
          DataFrame (columns df) ((dtypes df)[j := fst s])
            (map2 (\<lambda>r v. r[j := v]) (rows df) (snd s))
      | None \<Rightarrow>
          DataFrame (columns df @ [c]) (dtypes df @ [fst s])
            (map2 (\<lambda>r v. r @ [v]) (rows df) (snd s)))"

text \<open>\<open>df.columns = labels\<close>: pandas raises a \<open>ValueError\<close> unless there is one label
  for each column.\<close>

definition set_columns :: "('l, 'n) frame \<Rightarrow> 'm list \<Rightarrow> error + ('m, 'n) frame" where
  "set_columns df labels =
     (if length labels \<noteq> length (columns df)
      then Inl (ValueError_length_mismatch (length (columns df)) (length labels))
      else Inr (DataFrame labels (dtypes df) (rows df)))"

text \<open>\<open>df.iloc[:, :n]\<close>: the first \<open>n\<close> columns, all of them when there are fewer.\<close>

definition iloc_cols :: "('l, 'n) frame \<Rightarrow> nat \<Rightarrow> ('l, 'n) frame" where
  "iloc_cols df n = DataFrame (take n (columns df)) (take n (dtypes df)) (map (take n) (rows df))"

text \<open>\<open>df[mask]\<close> with a boolean series: the rows whose mask is true.\<close>

definition select :: "bool list \<Rightarrow> 'a list \<Rightarrow> 'a list" where
  "select keep xs = map snd (filter fst (zip keep xs))"

definition mask_rows :: "('l, 'n) frame \<Rightarrow> bool list \<Rightarrow> ('l, 'n) frame" where
  "mask_rows df keep = DataFrame (columns df) (dtypes df) (select keep (rows df))"

text \<open>\<open>df.dropna(how="all").reset_index(drop=True)\<close>: rows are kept by position, so
  the new index is the position in the list.\<close>

definition dropna_all :: "('l, 'n) frame \<Rightarrow> ('l, 'n) frame" where
  "dropna_all df = DataFrame (columns df) (dtypes df) (filter (\<lambda>r. \<not> list_all isna r) (rows df))"

text \<open>\<open>pd.to_numeric(s, errors="coerce")\<close> on a series of texts, and
  \<open>pd.to_datetime(s, errors="coerce", dayfirst=d)\<close>.\<close>

definition pd_to_numeric :: "'n pandas \<Rightarrow> pystr list \<Rightarrow> 'n series" where
  "pd_to_numeric lib ss =
     (Numeric, map (\<lambda>s. case to_numeric lib ss s of Some x \<Rightarrow> Num x | None \<Rightarrow> NaN) ss)"

definition pd_to_datetime :: "'n pandas \<Rightarrow> bool \<Rightarrow> 'n series \<Rightarrow> 'n series" where
  "pd_to_datetime lib dayfirst s =
     (Datetime,
      map (\<lambda>c. case to_datetime lib dayfirst (snd s) c of Some t \<Rightarrow> Ts t | None \<Rightarrow> NaT) (snd s))"

section \<open>Configuration\<close>

definition FINAL_COLS :: "pystr list" where
  "FINAL_COLS = map lit
     [''Row No.'', ''Store Code'', ''Store Name'', ''Date'', ''Gross Sales'', ''Net Sales'',
      ''Discounted'', ''Item Void'', ''Void Value'', ''Item Refund'', ''Refund Value'',
      ''Terminal'', ''Unnamed'', ''Quantity'', ''Transaction'', ''Average Transaction Value'']"

definition NUMERIC_COLS :: "pystr set" where
  "NUMERIC_COLS = set (map lit
     [''Gross Sales'', ''Net Sales'', ''Discounted'', ''Item Void'', ''Void Value'',
      ''Item Refund'', ''Refund Value'', ''Quantity'', ''Transaction'',
      ''Average Transaction Value''])"

section \<open>Helpers\<close>

text \<open>
  A column label of the frame read with two header rows is a tuple of objects; a plain
  index holds single objects.
\<close>

datatype 'n label = Tuple "'n cell list" | Single "'n cell"

text \<open>The list comprehension of \<open>_flatten_columns\<close>.\<close>

definition label_parts :: "'n pandas \<Rightarrow> 'n cell list \<Rightarrow> pystr list" where
  "label_parts lib c =
     map (\<lambda>x. strip (py_str lib x))
       (filter (\<lambda>x. x \<noteq> PyNone \<and> strip (py_str lib x) \<noteq> []) c)"

text \<open>The loop of \<open>_flatten_columns\<close>, with the list \<open>flat\<close> it appends to.\<close>

fun flatten_loop :: "'n pandas \<Rightarrow> 'n label list \<Rightarrow> pystr list \<Rightarrow> pystr list" where
  "flatten_loop lib [] flat = flat"
| "flatten_loop lib (Tuple c # cols) flat =
     (let parts = label_parts lib c
      in flatten_loop lib cols (flat @ [if parts \<noteq> [] then join (lit '' | '') parts else []]))"
| "flatten_loop lib (Single c # cols) flat =
     (let s = (if c = PyNone then [] else strip (py_str lib c))
      in flatten_loop lib cols (flat @ [s]))"

definition flatten_columns :: "'n pandas \<Rightarrow> 'n label list \<Rightarrow> pystr list" where
  "flatten_columns lib cols = flatten_loop lib cols []"

text \<open>
  The flattening as the specification words it, to compare the loop with: the labels of
  a column that are not null (\<open>None\<close>) are trimmed, the empty ones are discarded, and
  the rest is joined with the separator. A plain label counts as a column with one label.
\<close>

fun labels_of :: "'n label \<Rightarrow> 'n cell list" where
  "labels_of (Tuple c) = c"
| "labels_of (Single c) = [c]"

definition spec_flatten_label :: "'n pandas \<Rightarrow> 'n cell list \<Rightarrow> pystr" where
  "spec_flatten_label lib labels =
     join (lit '' | '')
       (filter (\<lambda>s. s \<noteq> [])
          (map (\<lambda>x. strip (py_str lib x)) (filter (\<lambda>x. x \<noteq> PyNone) labels)))"

text \<open>\<open>df[c].astype(str).str.replace(",", "", regex=False)\<close>.\<close>

definition comma_free_text :: "'n pandas \<Rightarrow> 'n series \<Rightarrow> pystr list" where
  "comma_free_text lib s = map (\<lambda>c. replace_comma (py_str lib c)) (snd s)"

fun coerce_numeric :: "'n pandas \<Rightarrow> (pystr, 'n) frame \<Rightarrow> pystr list \<Rightarrow> (pystr, 'n) frame" where
  "coerce_numeric lib df [] = df"
| "coerce_numeric lib df (c # cols) =
     coerce_numeric lib
       (case get_col df c of
          Inl e \<Rightarrow> df
        | Inr s \<Rightarrow> set_col df c (pd_to_numeric lib (comma_free_text lib s)))
       cols"

definition parse_date :: "'n pandas \<Rightarrow> 'n series \<Rightarrow> 'n series" where
  "parse_date lib series = pd_to_datetime lib True series"

definition rename_by_position ::
  "('l, 'n) frame \<Rightarrow> pystr list \<Rightarrow> error + (pystr, 'n) frame" where
  "rename_by_position df final_cols =
     (let n = length final_cols;
          df1 = iloc_cols df n
      in set_columns df1 final_cols)"

definition store_name_last4 :: "'n pandas \<Rightarrow> 'n series \<Rightarrow> 'n series" where
  "store_name_last4 lib series = (Object, map (\<lambda>c. Str (last4 (py_str lib c))) (snd series))"

text \<open>
  The comparison \<open>df["Gross Sales"] > 0\<close> is made on the series \<open>pd.to_numeric\<close> has just
  returned, whose elements are numbers or NaN; NaN is not greater than zero.
\<close>

fun gt_zero :: "('n :: {zero, ord}) cell \<Rightarrow> bool" where
  "gt_zero (Num x) = (0 < x)"
| "gt_zero _ = False"

definition filter_gross_sales_numeric_positive ::
  "('n :: {zero, ord}) pandas \<Rightarrow> (pystr, 'n) frame \<Rightarrow> error + (pystr, 'n) frame" where
  "filter_gross_sales_numeric_positive lib df =
     (case get_col df (lit ''Gross Sales'') of
        Inl e \<Rightarrow> Inl e
      | Inr s \<Rightarrow>
          (let df1 = set_col df (lit ''Gross Sales'') (pd_to_numeric lib (comma_free_text lib s))
           in case get_col df1 (lit ''Gross Sales'') of
                Inl e \<Rightarrow> Inl e
              | Inr g \<Rightarrow> Inr (mask_rows df1 (map (\<lambda>c. \<not> isna c \<and> gt_zero c) (snd g)))))"

section \<open>The script\<close>

text \<open>
  The cell of the clean-up loop:
  \<open>astype(str).str.strip().replace({"": pd.NA, "nan": pd.NA, "None": pd.NA})\<close>.
\<close>

definition clean_cell :: "'n pandas \<Rightarrow> 'n cell \<Rightarrow> 'n cell" where
  "clean_cell lib c =
     (let s = strip (py_str lib c)
      in if s = [] \<or> s = lit ''nan'' \<or> s = lit ''None'' then NA else Str s)"

text \<open>
  The loop \<open>for c in df.columns: if df[c].dtype == object: df[c] = ...\<close>. The sheet is
  read with \<open>dtype=object\<close>, so the test holds for every column of the script's frame;
  the model keeps it for frames of any dtypes.
\<close>

fun clean_loop :: "'n pandas \<Rightarrow> (pystr, 'n) frame \<Rightarrow> pystr list \<Rightarrow> (pystr, 'n) frame" where
  "clean_loop lib df [] = df"
| "clean_loop lib df (c # cs) =
     clean_loop lib
       (case get_col df c of
          Inl e \<Rightarrow> df
        | Inr s \<Rightarrow> if fst s = Object then set_col df c (Object, map (clean_cell lib) (snd s)) else df)
       cs"

text \<open>
  The script from the flattening of the header to the parsing of the dates
  (\<open>df_raw.columns = ...\<close> to \<open>df["Date"] = _parse_date(df["Date"])\<close>): the frame the
  truncation of the store names is applied to.
\<close>

definition pipeline_to_date ::
  "'n pandas \<Rightarrow> ('n label, 'n) frame \<Rightarrow> error + (pystr, 'n) frame" where
  "pipeline_to_date lib df_raw =
     (case set_columns df_raw (flatten_columns lib (columns df_raw)) of
        Inl e \<Rightarrow> Inl e
      | Inr df_flat \<Rightarrow>
     (case rename_by_position df_flat FINAL_COLS of
        Inl e \<Rightarrow> Inl e
      | Inr df \<Rightarrow>
     (let df = clean_loop lib df (columns df);
          df = dropna_all df
      in case get_col df (lit ''Date'') of
           Inl e \<Rightarrow> Inl e
         | Inr d \<Rightarrow> Inr (set_col df (lit ''Date'') (parse_date lib d)))))"

text \<open>The rest of the script, from the store names to the final \<open>dropna\<close>.\<close>

definition pipeline_from_store_name ::
  "('n :: {zero, ord}) pandas \<Rightarrow> (pystr, 'n) frame \<Rightarrow> error + (pystr, 'n) frame" where
  "pipeline_from_store_name lib df =
     (case get_col df (lit ''Store Name'') of
        Inl e \<Rightarrow> Inl e
      | Inr sn \<Rightarrow>
     (let df = set_col df (lit ''Store Name'') (store_name_last4 lib sn);
          df = coerce_numeric lib df (filter (\<lambda>c. c \<in> NUMERIC_COLS) FINAL_COLS)
      in case filter_gross_sales_numeric_positive lib df of
           Inl e \<Rightarrow> Inl e
         | Inr df \<Rightarrow> Inr (dropna_all df)))"

definition pipeline ::
  "('n :: {zero, ord}) pandas \<Rightarrow> ('n label, 'n) frame \<Rightarrow> error + (pystr, 'n) frame" where
  "pipeline lib df_raw =
     (case pipeline_to_date lib df_raw of
        Inl e \<Rightarrow> Inl e
      | Inr df \<Rightarrow> pipeline_from_store_name lib df)"

section \<open>A small library instance and a sample sheet\<close>

text \<open>
  The theorems below hold for every library. To run the script on a concrete sheet, the
  closed examples use this small instance: numbers are rationals, \<open>to_numeric\<close> reads
  plain decimals (an optional minus sign, digits, an optional fraction), \<open>to_datetime\<close>
  reads three numbers separated by slashes and puts the day first or second as the flag
  says, and every other text is unparseable.
\<close>

fun digits_value :: "pystr \<Rightarrow> nat \<Rightarrow> nat option" where
  "digits_value [] acc = Some acc"
| "digits_value (c # cs) acc =
     (if 48 \<le> c \<and> c \<le> 57 then digits_value cs (10 * acc + (c - 48)) else None)"

definition decimal_value :: "pystr \<Rightarrow> rat option" where
  "decimal_value s =
     (let neg = (s \<noteq> [] \<and> hd s = 45);
          body = (if neg then tl s else s);
          ip = takeWhile (\<lambda>c. c \<noteq> 46) body;
          fp = drop 1 (dropWhile (\<lambda>c. c \<noteq> 46) body)
      in if ip = [] \<and> fp = [] then None
         else case (digits_value ip 0, digits_value fp 0) of
                (Some a, Some b) \<Rightarrow>
                  Some ((if neg then - 1 else 1) * (of_nat a + of_nat b / 10 ^ length fp))
              | _ \<Rightarrow> None)"

fun nat_digits :: "nat \<Rightarrow> nat \<Rightarrow> pystr" where
  "nat_digits 0 n = []"
| "nat_digits (Suc k) n =
     (if n < 10 then [48 + n] else nat_digits k (n div 10) @ [48 + n mod 10])"

fun frac_digits :: "nat \<Rightarrow> rat \<Rightarrow> pystr" where
  "frac_digits 0 x = []"
| "frac_digits (Suc k) x =
     (if x = 0 then []
      else (let d = nat \<lfloor>x * 10\<rfloor> in (48 + d) # frac_digits k (x * 10 - of_nat d)))"

definition str_rat :: "rat \<Rightarrow> pystr" where
  "str_rat x =
     (let a = \<bar>x\<bar>; f = a - of_int \<lfloor>a\<rfloor>
      in (if x < 0 then [45] else []) @ nat_digits 20 (nat \<lfloor>a\<rfloor>) @ [46] @
         (if f = 0 then [48] else frac_digits 17 f))"

fun split_on :: "nat \<Rightarrow> pystr \<Rightarrow> pystr list" where
  "split_on sep [] = [[]]"
| "split_on sep (c # cs) =
     (if c = sep then [] # split_on sep cs
      else (case split_on sep cs of [] \<Rightarrow> [[c]] | p # ps \<Rightarrow> (c # p) # ps))"

definition field_value :: "pystr \<Rightarrow> nat option" where
  "field_value p = (if p = [] then None else digits_value p 0)"

definition date_value :: "bool \<Rightarrow> pystr \<Rightarrow> timestamp option" where
  "date_value dayfirst s =
     (case map field_value (split_on 47 s) of
        [Some a, Some b, Some y] \<Rightarrow>
          (let d = (if dayfirst then a else b); m = (if dayfirst then b else a)
           in if 1 \<le> m \<and> m \<le> 12 \<and> 1 \<le> d \<and> d \<le> 31 then Some (Timestamp (int y) m d 0) else None)
      | _ \<Rightarrow> None)"

fun cell_date :: "bool \<Rightarrow> 'n cell \<Rightarrow> timestamp option" where
  "cell_date dayfirst (Str s) = date_value dayfirst s"
| "cell_date dayfirst (Ts t) = Some t"
| "cell_date dayfirst _ = None"

definition toy_pandas :: "rat pandas" where
  "toy_pandas =
     \<lparr>str_num = str_rat,
      str_ts = (\<lambda>t. nat_digits 20 (nat (ts_year t)) @ [45] @ nat_digits 20 (ts_month t) @ [45] @
                  nat_digits 20 (ts_day t)),
      to_numeric = (\<lambda>series s. decimal_value s),
      to_datetime = (\<lambda>dayfirst series c. cell_date dayfirst c)\<rparr>"

text \<open>
  A sheet of 17 columns and five data rows: a regular row, a row with zero sales, a blank
  row, a row with no store name and an unreadable date, and a row whose sales are not a
  number. A blank cell is read as NaN.
\<close>

definition text_row :: "string list \<Rightarrow> rat cell list" where
  "text_row ss = map (\<lambda>s. if s = [] then NaN else Str (lit s)) ss"

definition example_raw :: "(rat label, rat) frame" where
  "example_raw =
     DataFrame
       (map (\<lambda>(a, b). Tuple [Str (lit a), Str (lit b)])
          [(''No'', ''Unnamed: 0_level_1''), (''Store'', ''Code''), (''Store'', '' Name ''),
           (''Date'', ''''), (''Sales'', ''Gross''), (''Sales'', ''Net''), (''Sales'', ''Disc''),
           (''Void'', ''Item''), (''Void'', ''Value''), (''Refund'', ''Item''),
           (''Refund'', ''Value''), (''Terminal'', ''''), ('''', ''''), (''Qty'', ''''),
           (''Trans'', ''''), (''ATV'', ''''), (''Remarks'', '''')])
       (replicate 17 Object)
       [text_row [''1'', ''S001'', ''SHOP-001'', ''05/03/2024'', ''1,200.50'', ''1,000.00'',
                  ''200.50'', ''0'', ''0'', ''0'', ''0'', ''T1'', '''', ''3'', ''2'', ''600.25'', ''ok''],
        text_row [''2'', ''S002'', '' SHOP-002 '', ''06/03/2024'', ''0'', ''0'',
                  ''0'', ''0'', ''0'', ''0'', ''0'', ''T1'', '''', ''0'', ''0'', ''0'', ''''],
        text_row (replicate 17 ''''),
        text_row [''4'', ''S004'', '''', ''soon'', ''35'', ''abc'',
                  '''', '''', '''', '''', '''', ''T2'', '''', ''1'', ''1'', ''35'', ''''],
        text_row [''5'', ''S005'', ''AB'', ''07/03/2024'', ''abc'', ''10'',
                  ''0'', ''0'', ''0'', ''0'', ''0'', ''T2'', '''', ''1'', ''1'', ''10'', '''']]"

definition example_out :: "(pystr, rat) frame" where
  "example_out =
     DataFrame FINAL_COLS
       ([Object, Object, Object, Datetime] @ replicate 7 Numeric @ [Object, Object] @
        replicate 3 Numeric)
       [[Str (lit ''1''), Str (lit ''S001''), Str (lit ''-001''), Ts (Timestamp 2024 3 5 0),
         Num (2401 / 2), Num 1000, Num (401 / 2), Num 0, Num 0, Num 0, Num 0,
         Str (lit ''T1''), NA, Num 3, Num 2, Num (2401 / 4)],
        [Str (lit ''4''), Str (lit ''S004''), Str (lit ''<NA>''), NaT,
         Num 35, NaN, NaN, NaN, NaN, NaN, NaN,
         Str (lit ''T2''), NA, Num 1, Num 1, Num 35]]"



text \<open>The first ten columns of the sample sheet.\<close>

definition example_short :: "(rat label, rat) frame" where
  "example_short = iloc_cols example_raw 10"

text \<open>A frame of cleaned text with one numeric column, for the coercion alone.\<close>

definition example_sales :: "(pystr, rat) frame" where
  "example_sales =
     DataFrame [lit ''Store Name'', lit ''Gross Sales''] [Object, Object]
       [[Str (lit ''A''), Str (lit ''1,200.50'')],
        [Str (lit ''B''), Str (lit ''abc'')],
        [Str (lit ''C''), NA]]"

definition example_sales_coerced :: "(pystr, rat) frame" where
  "example_sales_coerced =
     DataFrame [lit ''Store Name'', lit ''Gross Sales''] [Object, Numeric]
       [[Str (lit ''A''), Num (2401 / 2)],
        [Str (lit ''B''), NaN],
        [Str (lit ''C''), NaN]]"

section \<open>Lists, columns and frames\<close>

lemma index_of_Some: "index_of c xs = Some j \<Longrightarrow> j < length xs \<and> xs ! j = c"
  by (induction xs arbitrary: j) (auto split: if_splits)

lemma select_map_filter: "select (map P xs) (map f xs) = map f (filter P xs)"
  by (induction xs) (auto simp: select_def)

lemma select_filter: "select (map P xs) xs = filter P xs"
  using select_map_filter [where f = "\<lambda>x. x" and P = P and xs = xs] by simp

lemma rows_set_col:
  "index_of c (columns df) = Some j \<Longrightarrow>
   rows (set_col df c s) = map2 (\<lambda>r v. r[j := v]) (rows df) (snd s)"
  by (simp add: set_col_def)

lemma columns_set_col:
  "index_of c (columns df) = Some j \<Longrightarrow> columns (set_col df c s) = columns df"
  by (simp add: set_col_def)

lemma wf_set_col:
  assumes "index_of c (columns df) = Some j" "wf_frame df"
  shows "wf_frame (set_col df c s)"
  using assms
  by (auto simp: set_col_def wf_frame_def list_all_iff dest!: set_zip_leftD)

lemma length_rows_set_col:
  "index_of c (columns df) = Some j \<Longrightarrow> length (snd s) = length (rows df) \<Longrightarrow>
   length (rows (set_col df c s)) = length (rows df)"
  by (simp add: set_col_def)

lemma column_at_set_col_same:
  assumes "index_of c (columns df) = Some j" "wf_frame df" "length (snd s) = length (rows df)"
  shows "column_at (set_col df c s) j = s"
proof -
  from assms(1) have j: "j < length (columns df)" by (simp add: index_of_Some)
  have "map (\<lambda>r. r ! j) (map2 (\<lambda>r v. r[j := v]) (rows df) (snd s)) = snd s"
    using assms(2,3) j
    by (intro nth_equalityI) (auto simp: wf_frame_def list_all_iff)
  with assms j show ?thesis
    by (simp add: column_at_def set_col_def wf_frame_def prod_eq_iff)
qed

lemma column_at_set_col_other:
  assumes "index_of c (columns df) = Some j" "k \<noteq> j" "length (snd s) = length (rows df)"
  shows "column_at (set_col df c s) k = column_at df k"
proof -
  have "map (\<lambda>r. r ! k) (map2 (\<lambda>r v. r[j := v]) (rows df) (snd s)) = map (\<lambda>r. r ! k) (rows df)"
    using assms(2,3) by (intro nth_equalityI) auto
  with assms show ?thesis
    by (simp add: column_at_def set_col_def)
qed

lemma length_column_at: "length (snd (column_at df j)) = length (rows df)"
  by (simp add: column_at_def)


lemma get_col_Inr:
  "get_col df c = Inr s \<longleftrightarrow> (\<exists>j. index_of c (columns df) = Some j \<and> s = column_at df j)"
  by (auto simp: get_col_def split: option.splits)

lemma get_col_index:
  "index_of c (columns df) = Some j \<Longrightarrow> get_col df c = Inr (column_at df j)"
  by (simp add: get_col_def)

lemma length_pd_to_numeric: "length (snd (pd_to_numeric lib ss)) = length ss"
  by (simp add: pd_to_numeric_def)

lemma length_comma_free_text: "length (comma_free_text lib s) = length (snd s)"
  by (simp add: comma_free_text_def)

lemma length_coerced_column:
  "length (snd (pd_to_numeric lib (comma_free_text lib (column_at df j)))) = length (rows df)"
  by (simp add: length_pd_to_numeric length_comma_free_text length_column_at)

lemma coerce_numeric_columns: "columns (coerce_numeric lib df cs) = columns df"
  by (induction cs arbitrary: df) (auto simp: get_col_Inr columns_set_col split: sum.splits)

lemma coerce_numeric_wf: "wf_frame df \<Longrightarrow> wf_frame (coerce_numeric lib df cs)"
  by (induction cs arbitrary: df) (auto simp: get_col_Inr wf_set_col split: sum.splits)

lemma coerce_numeric_length_rows: "length (rows (coerce_numeric lib df cs)) = length (rows df)"
  by (induction cs arbitrary: df)
     (auto simp: get_col_Inr length_rows_set_col length_coerced_column split: sum.splits)

lemma coerce_numeric_other:
  "index_of c (columns df) = Some k \<Longrightarrow> c \<notin> set cs \<Longrightarrow>
   column_at (coerce_numeric lib df cs) k = column_at df k"
proof (induction cs arbitrary: df)
  case Nil
  then show ?case by simp
next
  case (Cons c' cs)
  show ?case
  proof (cases "get_col df c'")
    case (Inl e)
    with Cons show ?thesis by simp
  next
    case (Inr s)
    then obtain j where j: "index_of c' (columns df) = Some j" and s: "s = column_at df j"
      by (auto simp: get_col_Inr)
    let ?df = "set_col df c' (pd_to_numeric lib (comma_free_text lib s))"
    from j Cons.prems have "k \<noteq> j" by (auto dest!: index_of_Some)
    then have "column_at ?df k = column_at df k"
      using j s by (simp add: column_at_set_col_other length_coerced_column)
    moreover have "column_at (coerce_numeric lib ?df cs) k = column_at ?df k"
      using Cons.prems j by (intro Cons.IH) (simp_all add: columns_set_col)
    ultimately show ?thesis using Inr by simp
  qed
qed

lemma clean_loop_columns: "columns (clean_loop lib df cs) = columns df"
  by (induction cs arbitrary: df) (auto simp: get_col_Inr columns_set_col split: sum.splits)

lemma clean_loop_wf: "wf_frame df \<Longrightarrow> wf_frame (clean_loop lib df cs)"
  by (induction cs arbitrary: df) (auto simp: get_col_Inr wf_set_col split: sum.splits)

lemma dropna_all_simps:
  "columns (dropna_all df) = columns df"
  "dtypes (dropna_all df) = dtypes df"
  "rows (dropna_all df) = filter (\<lambda>r. \<not> list_all isna r) (rows df)"
  by (simp_all add: dropna_all_def)

lemma wf_dropna_all: "wf_frame df \<Longrightarrow> wf_frame (dropna_all df)"
  by (simp add: wf_frame_def dropna_all_def list_all_iff)

lemma mask_rows_simps:
  "columns (mask_rows df keep) = columns df"
  "dtypes (mask_rows df keep) = dtypes df"
  "rows (mask_rows df keep) = select keep (rows df)"
  by (simp_all add: mask_rows_def)

lemma set_select_subset: "set (select keep xs) \<subseteq> set xs"
  by (auto simp: select_def dest: set_zip_rightD)

lemma wf_mask_rows: "wf_frame df \<Longrightarrow> wf_frame (mask_rows df keep)"
  using set_select_subset [of keep "rows df"]
  by (auto simp: wf_frame_def mask_rows_def list_all_iff)

lemma length_flatten_loop: "length (flatten_loop lib cols flat) = length flat + length cols"
  by (induction lib cols flat rule: flatten_loop.induct) (simp_all add: Let_def)

lemma length_flatten_columns: "length (flatten_columns lib cols) = length cols"
  by (simp add: flatten_columns_def length_flatten_loop)

lemma rename_by_position_Inr:
  "length final_cols \<le> length (columns df) \<Longrightarrow>
   rename_by_position df final_cols =
     Inr (DataFrame final_cols (take (length final_cols) (dtypes df))
            (map (take (length final_cols)) (rows df)))"
  by (simp add: rename_by_position_def set_columns_def iloc_cols_def Let_def)

lemma rename_by_position_Inl:
  "length (columns df) < length final_cols \<Longrightarrow>
   rename_by_position df final_cols =
     Inl (ValueError_length_mismatch (length (columns df)) (length final_cols))"
  by (simp add: rename_by_position_def set_columns_def iloc_cols_def Let_def)

lemma length_FINAL_COLS: "length FINAL_COLS = 16"
  by (simp add: FINAL_COLS_def)

lemma index_Store_Name: "index_of (lit ''Store Name'') FINAL_COLS = Some 2"
  by code_simp

lemma index_Date: "index_of (lit ''Date'') FINAL_COLS = Some 3"
  by code_simp

lemma index_Gross_Sales: "index_of (lit ''Gross Sales'') FINAL_COLS = Some 4"
  by code_simp

lemma Store_Name_not_numeric:
  "lit ''Store Name'' \<notin> set (filter (\<lambda>c. c \<in> NUMERIC_COLS) FINAL_COLS)"
  by code_simp


lemma wf_renamed:
  assumes "wf_frame df" "length final_cols \<le> length (columns df)"
  shows "wf_frame (DataFrame final_cols (take (length final_cols) (dtypes df))
            (map (take (length final_cols)) (rows df)))"
  using assms by (auto simp: wf_frame_def list_all_iff)

lemma pipeline_to_date_Inl:
  assumes "length (columns df_raw) < 16"
  shows "pipeline_to_date lib df_raw = Inl (ValueError_length_mismatch (length (columns df_raw)) 16)"
  using assms
  by (simp add: pipeline_to_date_def set_columns_def length_flatten_columns
      rename_by_position_Inl length_FINAL_COLS)

lemma pipeline_to_date_Inr:
  assumes "16 \<le> length (columns df_raw)"
  shows "\<exists>df. columns df = FINAL_COLS \<and> (wf_frame df_raw \<longrightarrow> wf_frame df) \<and>
           pipeline_to_date lib df_raw =
             Inr (set_col df (lit ''Date'') (parse_date lib (column_at df 3)))"
proof -
  let ?flat = "DataFrame (flatten_columns lib (columns df_raw)) (dtypes df_raw) (rows df_raw)"
  let ?ren = "DataFrame FINAL_COLS (take 16 (dtypes df_raw)) (map (take 16) (rows df_raw))"
  let ?df = "dropna_all (clean_loop lib ?ren FINAL_COLS)"
  have flat: "set_columns df_raw (flatten_columns lib (columns df_raw)) = Inr ?flat"
    by (simp add: set_columns_def length_flatten_columns)
  have ren: "rename_by_position ?flat FINAL_COLS = Inr ?ren"
    using assms rename_by_position_Inr [of FINAL_COLS ?flat]
    by (simp add: length_FINAL_COLS length_flatten_columns)
  have cols: "columns ?df = FINAL_COLS"
    by (simp add: dropna_all_simps clean_loop_columns)
  have wf: "wf_frame ?df" if "wf_frame df_raw"
  proof -
    have "wf_frame ?ren"
      using wf_renamed [of df_raw FINAL_COLS] that assms by (simp add: length_FINAL_COLS)
    then show ?thesis by (simp add: wf_dropna_all clean_loop_wf)
  qed
  have "pipeline_to_date lib df_raw =
          Inr (set_col ?df (lit ''Date'') (parse_date lib (column_at ?df 3)))"
    by (simp add: pipeline_to_date_def flat ren Let_def get_col_def cols index_Date)
  with cols wf show ?thesis by blast
qed


lemma pipeline_to_date_shape:
  assumes "pipeline_to_date lib df_raw = Inr pre"
  shows "columns pre = FINAL_COLS \<and> 16 \<le> length (columns df_raw) \<and> (wf_frame df_raw \<longrightarrow> wf_frame pre)"
proof -
  have len: "16 \<le> length (columns df_raw)"
  proof (rule ccontr)
    assume "\<not> 16 \<le> length (columns df_raw)"
    then have "length (columns df_raw) < 16" by simp
    from pipeline_to_date_Inl [OF this] assms show False by simp
  qed
  from pipeline_to_date_Inr [OF len, of lib] assms show ?thesis
    using len by (auto simp: columns_set_col index_Date wf_set_col)
qed

lemma pipeline_from_store_name_Inr:
  assumes "columns df = FINAL_COLS"
  shows "\<exists>df5 df6 df7.
     df5 = set_col df (lit ''Store Name'') (store_name_last4 lib (column_at df 2)) \<and>
     df6 = coerce_numeric lib df5 (filter (\<lambda>c. c \<in> NUMERIC_COLS) FINAL_COLS) \<and>
     df7 = set_col df6 (lit ''Gross Sales'') (pd_to_numeric lib (comma_free_text lib (column_at df6 4))) \<and>
     columns df5 = FINAL_COLS \<and> columns df6 = FINAL_COLS \<and> columns df7 = FINAL_COLS \<and>
     pipeline_from_store_name lib df =
       Inr (dropna_all (mask_rows df7 (map (\<lambda>c. \<not> isna c \<and> gt_zero c) (snd (column_at df7 4)))))"
proof -
  let ?df5 = "set_col df (lit ''Store Name'') (store_name_last4 lib (column_at df 2))"
  let ?df6 = "coerce_numeric lib ?df5 (filter (\<lambda>c. c \<in> NUMERIC_COLS) FINAL_COLS)"
  let ?df7 = "set_col ?df6 (lit ''Gross Sales'') (pd_to_numeric lib (comma_free_text lib (column_at ?df6 4)))"
  have c5: "columns ?df5 = FINAL_COLS"
    using assms by (simp add: columns_set_col index_Store_Name)
  then have c6: "columns ?df6 = FINAL_COLS"
    by (simp add: coerce_numeric_columns)
  then have c7: "columns ?df7 = FINAL_COLS"
    by (simp add: columns_set_col index_Gross_Sales)
  have "filter_gross_sales_numeric_positive lib ?df6 =
          Inr (mask_rows ?df7 (map (\<lambda>c. \<not> isna c \<and> gt_zero c) (snd (column_at ?df7 4))))"
    by (simp add: filter_gross_sales_numeric_positive_def get_col_def c6 c7 index_Gross_Sales Let_def)
  then have "pipeline_from_store_name lib df =
       Inr (dropna_all (mask_rows ?df7 (map (\<lambda>c. \<not> isna c \<and> gt_zero c) (snd (column_at ?df7 4)))))"
    by (simp add: pipeline_from_store_name_def get_col_def assms index_Store_Name Let_def)
  with c5 c6 c7 show ?thesis by blast
qed


lemma pipeline_from_store_name_wf:
  assumes "columns df = FINAL_COLS" "wf_frame df" "pipeline_from_store_name lib df = Inr out"
  shows "wf_frame out"
proof -
  from pipeline_from_store_name_Inr [OF assms(1), of lib] obtain df5 df6 df7 where
    df5: "df5 = set_col df (lit ''Store Name'') (store_name_last4 lib (column_at df 2))"
    and df6: "df6 = coerce_numeric lib df5 (filter (\<lambda>c. c \<in> NUMERIC_COLS) FINAL_COLS)"
    and df7: "df7 = set_col df6 (lit ''Gross Sales'')
                      (pd_to_numeric lib (comma_free_text lib (column_at df6 4)))"
    and c6: "columns df6 = FINAL_COLS"
    and out: "pipeline_from_store_name lib df =
       Inr (dropna_all (mask_rows df7 (map (\<lambda>c. \<not> isna c \<and> gt_zero c) (snd (column_at df7 4)))))"
    by blast
  have "wf_frame df5"
    unfolding df5 using assms(1,2) by (simp add: wf_set_col index_Store_Name)
  then have "wf_frame df6"
    unfolding df6 by (rule coerce_numeric_wf)
  then have "wf_frame df7"
    unfolding df7 using c6 by (simp add: wf_set_col index_Gross_Sales)
  with out assms(3) show ?thesis
    by (auto simp: wf_dropna_all wf_mask_rows)
qed

lemma example_run: "pipeline toy_pandas example_raw = Inr example_out"
  by code_simp

lemma wf_example_raw: "wf_frame example_raw"
  by code_simp


lemma cell_positive: "\<not> isna c \<and> gt_zero c \<Longrightarrow> \<exists>x. c = Num x \<and> 0 < x"
  by (cases c) simp_all

lemma pipeline_decompose:
  assumes "pipeline lib df_raw = Inr out"
  shows "\<exists>pre df5 df6 df7.
     pipeline_to_date lib df_raw = Inr pre \<and> columns pre = FINAL_COLS \<and>
     (wf_frame df_raw \<longrightarrow> wf_frame pre) \<and>
     df5 = set_col pre (lit ''Store Name'') (store_name_last4 lib (column_at pre 2)) \<and>
     df6 = coerce_numeric lib df5 (filter (\<lambda>c. c \<in> NUMERIC_COLS) FINAL_COLS) \<and>
     df7 = set_col df6 (lit ''Gross Sales'') (pd_to_numeric lib (comma_free_text lib (column_at df6 4))) \<and>
     columns df5 = FINAL_COLS \<and> columns df6 = FINAL_COLS \<and> columns df7 = FINAL_COLS \<and>
     columns out = FINAL_COLS \<and> dtypes out = dtypes df7 \<and>
     rows out = filter (\<lambda>r. \<not> list_all isna r)
                  (filter (\<lambda>r. \<not> isna (r ! 4) \<and> gt_zero (r ! 4)) (rows df7))"
proof -
  from assms obtain pre where pre: "pipeline_to_date lib df_raw = Inr pre"
    and rest: "pipeline_from_store_name lib pre = Inr out"
    by (auto simp: pipeline_def split: sum.splits)
  from pipeline_to_date_shape [OF pre]
  have cols: "columns pre = FINAL_COLS" and wf: "wf_frame df_raw \<longrightarrow> wf_frame pre"
    by simp_all
  from pipeline_from_store_name_Inr [OF cols, of lib] obtain df5 df6 df7 where
    df5: "df5 = set_col pre (lit ''Store Name'') (store_name_last4 lib (column_at pre 2))"
    and df6: "df6 = coerce_numeric lib df5 (filter (\<lambda>c. c \<in> NUMERIC_COLS) FINAL_COLS)"
    and df7: "df7 = set_col df6 (lit ''Gross Sales'')
                      (pd_to_numeric lib (comma_free_text lib (column_at df6 4)))"
    and c: "columns df5 = FINAL_COLS" "columns df6 = FINAL_COLS" "columns df7 = FINAL_COLS"
    and out: "pipeline_from_store_name lib pre =
       Inr (dropna_all (mask_rows df7 (map (\<lambda>c. \<not> isna c \<and> gt_zero c) (snd (column_at df7 4)))))"
    by blast
  have sel: "select (map (\<lambda>c. \<not> isna c \<and> gt_zero c) (snd (column_at df7 4))) (rows df7) =
             filter (\<lambda>r. \<not> isna (r ! 4) \<and> gt_zero (r ! 4)) (rows df7)"
    using select_filter [of "\<lambda>r. \<not> isna (r ! 4) \<and> gt_zero (r ! 4)" "rows df7"]
    by (simp add: column_at_def comp_def)
  from out rest have "out = dropna_all (mask_rows df7 (map (\<lambda>c. \<not> isna c \<and> gt_zero c) (snd (column_at df7 4))))"
    by simp
  then have "columns out = FINAL_COLS" "dtypes out = dtypes df7"
    "rows out = filter (\<lambda>r. \<not> list_all isna r)
                  (filter (\<lambda>r. \<not> isna (r ! 4) \<and> gt_zero (r ! 4)) (rows df7))"
    using c sel by (simp_all add: dropna_all_simps mask_rows_simps)
  with pre cols wf df5 df6 df7 c show ?thesis by blast
qed

lemma dtypes_set_col:
  "index_of c (columns df) = Some j \<Longrightarrow> dtypes (set_col df c s) = (dtypes df)[j := fst s]"
  by (simp add: set_col_def)

lemma pipeline_wf:
  assumes "wf_frame df_raw" "pipeline lib df_raw = Inr out"
  shows "wf_frame out"
proof -
  from assms(2) obtain pre where pre: "pipeline_to_date lib df_raw = Inr pre"
    and rest: "pipeline_from_store_name lib pre = Inr out"
    by (auto simp: pipeline_def split: sum.splits)
  from pipeline_to_date_shape [OF pre] assms(1)
  have "columns pre = FINAL_COLS" "wf_frame pre" by simp_all
  then show ?thesis using rest by (rule pipeline_from_store_name_wf)
qed

lemma store_name_column:
  assumes "columns pre = FINAL_COLS" "wf_frame pre"
    and df5: "df5 = set_col pre (lit ''Store Name'') (store_name_last4 lib (column_at pre 2))"
    and df6: "df6 = coerce_numeric lib df5 (filter (\<lambda>c. c \<in> NUMERIC_COLS) FINAL_COLS)"
    and df7: "df7 = set_col df6 (lit ''Gross Sales'')
                      (pd_to_numeric lib (comma_free_text lib (column_at df6 4)))"
  shows "column_at df7 2 = store_name_last4 lib (column_at pre 2)"
    and "length (rows df7) = length (rows pre)"
    and "wf_frame df7"
proof -
  have len: "length (snd (store_name_last4 lib (column_at pre 2))) = length (rows pre)"
    by (simp add: store_name_last4_def length_column_at)
  have c5: "columns df5 = FINAL_COLS"
    unfolding df5 using assms(1) by (simp add: columns_set_col index_Store_Name)
  have c6: "columns df6 = FINAL_COLS"
    unfolding df6 using c5 by (simp add: coerce_numeric_columns)
  have "column_at df5 2 = store_name_last4 lib (column_at pre 2)"
    unfolding df5 using assms(1,2) len by (simp add: column_at_set_col_same index_Store_Name)
  moreover have "column_at df6 2 = column_at df5 2"
    unfolding df6
  proof (rule coerce_numeric_other)
    show "index_of (lit ''Store Name'') (columns df5) = Some 2"
      using c5 by (simp add: index_Store_Name)
    show "lit ''Store Name'' \<notin> set (filter (\<lambda>c. c \<in> NUMERIC_COLS) FINAL_COLS)"
      by (rule Store_Name_not_numeric)
  qed
  moreover have "column_at df7 2 = column_at df6 2"
    unfolding df7 using c6
    by (intro column_at_set_col_other [where j = 4])
       (simp_all add: index_Gross_Sales length_coerced_column)
  ultimately show "column_at df7 2 = store_name_last4 lib (column_at pre 2)" by simp
  have "length (rows df5) = length (rows pre)"
    unfolding df5 using assms(1) len by (simp add: length_rows_set_col index_Store_Name)
  then have "length (rows df6) = length (rows pre)"
    unfolding df6 by (simp add: coerce_numeric_length_rows)
  then show "length (rows df7) = length (rows pre)"
    unfolding df7 using c6 by (simp add: length_rows_set_col index_Gross_Sales length_coerced_column)
  have "wf_frame df5"
    unfolding df5 using assms(1,2) by (simp add: wf_set_col index_Store_Name)
  then have "wf_frame df6"
    unfolding df6 by (rule coerce_numeric_wf)
  then show "wf_frame df7"
    unfolding df7 using c6 by (simp add: wf_set_col index_Gross_Sales)
qed



lemma length_last4: "length (last4 s) \<le> 4"
  by (simp add: last4_def)

lemma label_parts_spec:
  "label_parts lib c =
     filter (\<lambda>s. s \<noteq> []) (map (\<lambda>x. strip (py_str lib x)) (filter (\<lambda>x. x \<noteq> PyNone) c))"
  by (induction c) (simp_all add: label_parts_def)

lemma flatten_loop_map:
  "flatten_loop lib cols flat = flat @ map (\<lambda>c. spec_flatten_label lib (labels_of c)) cols"
proof (induction lib cols flat rule: flatten_loop.induct)
  case (1 lib flat)
  show ?case by simp
next
  case (2 lib c cols flat)
  have "(if label_parts lib c \<noteq> [] then join (lit '' | '') (label_parts lib c) else []) =
        spec_flatten_label lib c"
    by (simp add: spec_flatten_label_def label_parts_spec)
  with 2 show ?case by (simp add: Let_def)
next
  case (3 lib c cols flat)
  have "(if c = PyNone then [] else strip (py_str lib c)) = spec_flatten_label lib [c]"
    by (simp add: spec_flatten_label_def)
  with 3 show ?case by (simp add: Let_def)
qed

lemma spec_flatten_label_empty:
  "\<forall>x \<in> set labels. x = PyNone \<or> strip (py_str lib x) = [] \<Longrightarrow> spec_flatten_label lib labels = []"
proof -
  assume a: "\<forall>x \<in> set labels. x = PyNone \<or> strip (py_str lib x) = []"
  have "filter (\<lambda>s. s \<noteq> []) (map (\<lambda>x. strip (py_str lib x)) (filter (\<lambda>x. x \<noteq> PyNone) labels)) = []"
    using a by (induction labels) auto
  then show ?thesis by (simp add: spec_flatten_label_def)
qed

lemma coerce_numeric_column:
  "wf_frame df \<Longrightarrow> distinct cs \<Longrightarrow> c \<in> set cs \<Longrightarrow> index_of c (columns df) = Some j \<Longrightarrow>
   column_at (coerce_numeric lib df cs) j = pd_to_numeric lib (comma_free_text lib (column_at df j))"
proof (induction cs arbitrary: df)
  case Nil
  then show ?case by simp
next
  case (Cons c' cs)
  show ?case
  proof (cases "c' = c")
    case True
    let ?new = "pd_to_numeric lib (comma_free_text lib (column_at df j))"
    let ?df = "set_col df c ?new"
    from True Cons.prems have notin: "c \<notin> set cs" by simp
    have "column_at (coerce_numeric lib ?df cs) j = column_at ?df j"
      using Cons.prems(4) notin by (intro coerce_numeric_other) (simp_all add: columns_set_col)
    also have "\<dots> = ?new"
      using Cons.prems(1,4) by (simp add: column_at_set_col_same length_coerced_column)
    finally show ?thesis
      using True Cons.prems(4) by (simp add: get_col_index)
  next
    case False
    with Cons.prems have mem: "c \<in> set cs" and dist: "distinct cs" by simp_all
    show ?thesis
    proof (cases "get_col df c'")
      case (Inl e)
      with Cons.IH [OF Cons.prems(1) dist mem Cons.prems(4)] show ?thesis by simp
    next
      case (Inr s)
      then obtain k where k: "index_of c' (columns df) = Some k" and s: "s = column_at df k"
        by (auto simp: get_col_Inr)
      let ?df = "set_col df c' (pd_to_numeric lib (comma_free_text lib s))"
      from k Cons.prems(4) False have "j \<noteq> k" by (auto dest!: index_of_Some)
      then have same: "column_at ?df j = column_at df j"
        using k s by (simp add: column_at_set_col_other length_coerced_column)
      have "wf_frame ?df" using k Cons.prems(1) by (simp add: wf_set_col)
      moreover have "index_of c (columns ?df) = Some j"
        using k Cons.prems(4) by (simp add: columns_set_col)
      ultimately have "column_at (coerce_numeric lib ?df cs) j =
          pd_to_numeric lib (comma_free_text lib (column_at ?df j))"
        using dist mem by (intro Cons.IH)
      with same Inr show ?thesis by simp
    qed
  qed
qed

lemma numeric_list_distinct: "distinct (filter (\<lambda>c. c \<in> NUMERIC_COLS) FINAL_COLS)"
  by code_simp

lemma numeric_list_set: "set (filter (\<lambda>c. c \<in> NUMERIC_COLS) FINAL_COLS) = NUMERIC_COLS"
  by code_simp

lemma card_NUMERIC_COLS: "card NUMERIC_COLS = 10"
  by code_simp

lemma NUMERIC_COLS_in_FINAL_COLS: "NUMERIC_COLS \<subseteq> set FINAL_COLS"
  by code_simp

lemma comma_example: "replace_comma (lit ''1,200.50'') = lit ''1200.50''"
  by code_simp



section \<open>The column contract\<close>

text \<open>
  C2. A sheet with at least 16 columns always gets through the script, and the frame that
  comes out has exactly the 16 labels of \<open>FINAL_COLS\<close>, in that order, whatever the
  header of the sheet said; its rows have 16 cells, so the columns after the 16th are gone.
\<close>

theorem output_columns_fixed:
  assumes "16 \<le> length (columns df_raw)"
  shows "\<exists>out. pipeline lib df_raw = Inr out \<and> columns out = FINAL_COLS \<and>
           length (columns out) = 16 \<and> (wf_frame df_raw \<longrightarrow> wf_frame out)"
proof -
  from pipeline_to_date_Inr [OF assms, of lib] obtain df where
    df: "columns df = FINAL_COLS" "wf_frame df_raw \<longrightarrow> wf_frame df"
    and pre: "pipeline_to_date lib df_raw =
                Inr (set_col df (lit ''Date'') (parse_date lib (column_at df 3)))"
    by blast
  let ?pre = "set_col df (lit ''Date'') (parse_date lib (column_at df 3))"
  have cols: "columns ?pre = FINAL_COLS"
    using df by (simp add: columns_set_col index_Date)
  have wf: "wf_frame df_raw \<longrightarrow> wf_frame ?pre"
    using df by (simp add: wf_set_col index_Date)
  from pipeline_from_store_name_Inr [OF cols, of lib] obtain out where
    out: "pipeline_from_store_name lib ?pre = Inr out" and "columns out = FINAL_COLS"
    by (auto simp: dropna_all_simps mask_rows_simps)
  moreover have "wf_frame df_raw \<longrightarrow> wf_frame out"
    using wf pipeline_from_store_name_wf [OF cols _ out] by blast
  ultimately show ?thesis
    using pre by (simp add: pipeline_def length_FINAL_COLS)
qed

theorem output_columns_fixed_witness:
  "16 \<le> length (columns example_raw) \<and> wf_frame example_raw \<and>
   pipeline toy_pandas example_raw = Inr example_out \<and>
   columns example_out = FINAL_COLS \<and> length (columns example_out) = 16 \<and>
   wf_frame example_out"
proof -
  have h: "16 \<le> length (columns example_raw)"
    by code_simp
  from output_columns_fixed [OF h, of toy_pandas] show ?thesis
    using h wf_example_raw by (auto simp: example_run)
qed

section \<open>Sheets with fewer than 16 columns\<close>

text \<open>
  C4. A sheet with fewer than 16 columns never yields a frame: the assignment of the 16
  labels in \<open>_rename_by_position\<close> raises the \<open>ValueError\<close> of pandas for a length
  mismatch, which names the number of columns found and the 16 expected.
\<close>

theorem short_table_raises:
  "length (columns df_raw) < 16 \<Longrightarrow>
   pipeline lib df_raw = Inl (ValueError_length_mismatch (length (columns df_raw)) 16)"
  by (simp add: pipeline_def pipeline_to_date_Inl)

theorem short_table_raises_witness:
  "length (columns example_short) < 16 \<and>
   pipeline toy_pandas example_short = Inl (ValueError_length_mismatch 10 16)"
proof -
  have h: "length (columns example_short) < 16"
    by code_simp
  have n: "length (columns example_short) = 10"
    by code_simp
  from short_table_raises [OF h, of toy_pandas] show ?thesis
    using h n by simp
qed

section \<open>Positive gross sales\<close>

text \<open>
  C1. In every row of the frame the script returns, the \<open>Gross Sales\<close> cell is a number
  (the column has a numeric dtype and the cell is not a missing marker) and the number is
  strictly greater than zero.
\<close>

theorem gross_sales_positive:
  assumes "wf_frame df_raw" "pipeline lib df_raw = Inr out"
  shows "\<exists>g. get_col out (lit ''Gross Sales'') = Inr (Numeric, g) \<and>
             length g = length (rows out) \<and>
             (\<forall>c \<in> set g. \<not> isna c \<and> (\<exists>x. c = Num x \<and> 0 < x))"
proof -
  from pipeline_decompose [OF assms(2)] obtain pre df5 df6 df7 where
    cpre: "columns pre = FINAL_COLS" and wf: "wf_frame pre"
    and df5: "df5 = set_col pre (lit ''Store Name'') (store_name_last4 lib (column_at pre 2))"
    and df6: "df6 = coerce_numeric lib df5 (filter (\<lambda>c. c \<in> NUMERIC_COLS) FINAL_COLS)"
    and df7: "df7 = set_col df6 (lit ''Gross Sales'')
                      (pd_to_numeric lib (comma_free_text lib (column_at df6 4)))"
    and c6: "columns df6 = FINAL_COLS"
    and cout: "columns out = FINAL_COLS" and dout: "dtypes out = dtypes df7"
    and rout: "rows out = filter (\<lambda>r. \<not> list_all isna r)
                  (filter (\<lambda>r. \<not> isna (r ! 4) \<and> gt_zero (r ! 4)) (rows df7))"
    using assms(1) by blast
  have "wf_frame df5"
    unfolding df5 using cpre wf by (simp add: wf_set_col index_Store_Name)
  then have "wf_frame df6"
    unfolding df6 by (rule coerce_numeric_wf)
  then have "length (dtypes df6) = 16"
    using c6 by (simp add: wf_frame_def length_FINAL_COLS)
  then have dt: "dtypes out ! 4 = Numeric"
    unfolding dout df7 using c6
    by (simp add: dtypes_set_col index_Gross_Sales pd_to_numeric_def)
  let ?g = "map (\<lambda>r. r ! 4) (rows out)"
  have "get_col out (lit ''Gross Sales'') = Inr (Numeric, ?g)"
    using cout dt by (simp add: get_col_def index_Gross_Sales column_at_def)
  moreover have "\<forall>c \<in> set ?g. \<not> isna c \<and> (\<exists>x. c = Num x \<and> 0 < x)"
    unfolding rout by (auto intro: cell_positive)
  ultimately show ?thesis by simp
qed

theorem gross_sales_positive_witness:
  "wf_frame example_raw \<and> pipeline toy_pandas example_raw = Inr example_out \<and>
   get_col example_out (lit ''Gross Sales'') = Inr (Numeric, [Num (2401 / 2), Num 35]) \<and>
   length [Num (2401 / 2), Num 35 :: rat cell] = length (rows example_out) \<and>
   list_all (\<lambda>c. \<not> isna c \<and> (\<exists>x. c = Num x \<and> 0 < x)) [Num (2401 / 2), Num 35 :: rat cell]"
proof -
  have col: "get_col example_out (lit ''Gross Sales'') = Inr (Numeric, [Num (2401 / 2), Num 35])"
    by code_simp
  from gross_sales_positive [OF wf_example_raw example_run] obtain g where
    "get_col example_out (lit ''Gross Sales'') = Inr (Numeric, g)"
    "length g = length (rows example_out)"
    "\<forall>c \<in> set g. \<not> isna c \<and> (\<exists>x. c = Num x \<and> 0 < x)"
    by blast
  with col have "length [Num (2401 / 2), Num 35 :: rat cell] = length (rows example_out)"
    and "list_all (\<lambda>c. \<not> isna c \<and> (\<exists>x. c = Num x \<and> 0 < x)) [Num (2401 / 2), Num 35 :: rat cell]"
    by (simp_all only: sum.inject prod.inject list_all_iff simp_thms)
  with wf_example_raw example_run col show ?thesis
    by (intro conjI)
qed

section \<open>Rows with nothing in them\<close>

text \<open>
  C8. No row of the frame the script returns has all of its 16 cells missing: a row that
  is entirely missing, also one that became so through the parsing of the dates and the
  coercion of the numbers, is not in the output.
\<close>

theorem no_all_missing_row:
  assumes "wf_frame df_raw" "pipeline lib df_raw = Inr out"
  shows "\<forall>r \<in> set (rows out). length r = 16 \<and> \<not> list_all isna r"
proof -
  from pipeline_decompose [OF assms(2)] obtain df6 df7 where
    df7: "df7 = set_col df6 (lit ''Gross Sales'')
                      (pd_to_numeric lib (comma_free_text lib (column_at df6 4)))"
    and cout: "columns out = FINAL_COLS"
    and rout: "rows out = filter (\<lambda>r. \<not> list_all isna r)
                  (filter (\<lambda>r. \<not> isna (r ! 4) \<and> gt_zero (r ! 4)) (rows df7))"
    by blast
  have "wf_frame out" using assms by (rule pipeline_wf)
  then have "\<forall>r \<in> set (rows out). length r = 16"
    using cout by (simp add: wf_frame_def list_all_iff length_FINAL_COLS)
  moreover have "\<forall>r \<in> set (rows out). \<not> list_all isna r"
    using rout by auto
  ultimately show ?thesis by blast
qed

theorem no_all_missing_row_witness:
  "wf_frame example_raw \<and> pipeline toy_pandas example_raw = Inr example_out \<and>
   length (rows example_raw) = 5 \<and> list_all isna (rows example_raw ! 2) \<and>
   length (rows example_out) = 2 \<and>
   list_all (\<lambda>r. length r = 16 \<and> \<not> list_all isna r) (rows example_out)"
proof (intro conjI)
  show "wf_frame example_raw"
    by (rule wf_example_raw)
  show "pipeline toy_pandas example_raw = Inr example_out"
    by (rule example_run)
  show "length (rows example_raw) = 5"
    by code_simp
  show "list_all isna (rows example_raw ! 2)"
    by code_simp
  show "length (rows example_out) = 2"
    by code_simp
  show "list_all (\<lambda>r. length r = 16 \<and> \<not> list_all isna r) (rows example_out)"
    using no_all_missing_row [OF wf_example_raw example_run]
    by (simp only: list_all_iff)
qed

section \<open>Store names\<close>



text \<open>
  C10. In every row of the output the \<open>Store Name\<close> cell is a text of at most four
  characters and never a missing marker. The truncation writes the text of whatever the
  cell holds, so a missing cell becomes the last four characters of the text of its
  marker: \<open><NA>\<close> for \<open>pd.NA\<close>, which is what the clean-up leaves in a blank cell.
\<close>

theorem store_name_never_missing:
  assumes "wf_frame df_raw" "pipeline lib df_raw = Inr out"
  shows "(\<exists>names. get_col out (lit ''Store Name'') = Inr (Object, names) \<and>
            length names = length (rows out) \<and>
            (\<forall>c \<in> set names. \<not> isna c \<and> (\<exists>t. c = Str t \<and> length t \<le> 4))) \<and>
         (\<forall>dt c. isna c \<longrightarrow>
            store_name_last4 lib (dt, [c]) = (Object, [Str (last4 (py_str lib c))])) \<and>
         store_name_last4 lib (Object, [NA]) = (Object, [Str (lit ''<NA>'')])"
proof -
  from pipeline_decompose [OF assms(2)] obtain pre df5 df6 df7 where
    cpre: "columns pre = FINAL_COLS" and wf: "wf_frame pre"
    and df5: "df5 = set_col pre (lit ''Store Name'') (store_name_last4 lib (column_at pre 2))"
    and df6: "df6 = coerce_numeric lib df5 (filter (\<lambda>c. c \<in> NUMERIC_COLS) FINAL_COLS)"
    and df7: "df7 = set_col df6 (lit ''Gross Sales'')
                      (pd_to_numeric lib (comma_free_text lib (column_at df6 4)))"
    and cout: "columns out = FINAL_COLS" and dout: "dtypes out = dtypes df7"
    and rout: "rows out = filter (\<lambda>r. \<not> list_all isna r)
                  (filter (\<lambda>r. \<not> isna (r ! 4) \<and> gt_zero (r ! 4)) (rows df7))"
    using assms(1) by blast
  note sn = store_name_column [OF cpre wf df5 df6 df7]
  have col7: "map (\<lambda>r. r ! 2) (rows df7) =
                map (\<lambda>c. Str (last4 (py_str lib c))) (snd (column_at pre 2))"
    and dt7: "dtypes df7 ! 2 = Object"
    using sn(1) by (simp_all add: column_at_def store_name_last4_def)
  let ?names = "map (\<lambda>r. r ! 2) (rows out)"
  have "get_col out (lit ''Store Name'') = Inr (Object, ?names)"
    using cout dout dt7 by (simp add: get_col_def index_Store_Name column_at_def)
  moreover have "\<not> isna c \<and> (\<exists>t. c = Str t \<and> length t \<le> 4)" if "c \<in> set ?names" for c
  proof -
    from that have "c \<in> set (map (\<lambda>r. r ! 2) (rows df7))"
      unfolding rout by auto
    then obtain b where "c = Str (last4 (py_str lib b))"
      unfolding col7 by auto
    then show ?thesis by (simp add: length_last4)
  qed
  ultimately have "\<exists>names. get_col out (lit ''Store Name'') = Inr (Object, names) \<and>
            length names = length (rows out) \<and>
            (\<forall>c \<in> set names. \<not> isna c \<and> (\<exists>t. c = Str t \<and> length t \<le> 4))"
    by simp
  moreover have "last4 (lit ''<NA>'') = lit ''<NA>''"
    by code_simp
  ultimately show ?thesis
    by (simp add: store_name_last4_def)
qed

theorem store_name_never_missing_witness:
  "wf_frame example_raw \<and> pipeline toy_pandas example_raw = Inr example_out \<and>
   rows example_raw ! 3 ! 2 = NaN \<and>
   get_col example_out (lit ''Store Name'') = Inr (Object, [Str (lit ''-001''), Str (lit ''<NA>'')]) \<and>
   list_all (\<lambda>c. \<not> isna c \<and> (\<exists>t. c = Str t \<and> length t \<le> 4))
     [Str (lit ''-001''), Str (lit ''<NA>'') :: rat cell] \<and>
   isna (NaT :: rat cell) \<and>
   store_name_last4 toy_pandas (Datetime, [NaT]) = (Object, [Str (last4 (py_str toy_pandas NaT))]) \<and>
   store_name_last4 toy_pandas (Object, [NA]) = (Object, [Str (lit ''<NA>'')])"
proof -
  have blank: "rows example_raw ! 3 ! 2 = NaN"
    by code_simp
  have col: "get_col example_out (lit ''Store Name'') =
          Inr (Object, [Str (lit ''-001''), Str (lit ''<NA>'')])"
    by code_simp
  have na: "isna (NaT :: rat cell)"
    by simp
  note inst = store_name_never_missing [OF wf_example_raw example_run]
  from inst obtain names where
    "get_col example_out (lit ''Store Name'') = Inr (Object, names)"
    "\<forall>c \<in> set names. \<not> isna c \<and> (\<exists>t. c = Str t \<and> length t \<le> 4)"
    by blast
  with col have present: "list_all (\<lambda>c. \<not> isna c \<and> (\<exists>t. c = Str t \<and> length t \<le> 4))
     [Str (lit ''-001''), Str (lit ''<NA>'') :: rat cell]"
    by (simp only: sum.inject prod.inject list_all_iff simp_thms)
  from inst na have nat: "store_name_last4 toy_pandas (Datetime, [NaT]) =
      (Object, [Str (last4 (py_str toy_pandas NaT))])"
    by blast
  from inst have "store_name_last4 toy_pandas (Object, [NA]) = (Object, [Str (lit ''<NA>'')])"
    by blast
  with wf_example_raw example_run blank col present na nat show ?thesis
    by (intro conjI)
qed

section \<open>Flattening of the header\<close>

text \<open>
  C9. \<open>_flatten_columns\<close> turns the labels of each column into one text: the labels that
  are not null (\<open>None\<close>) are trimmed, the empty ones are discarded, and what remains is
  joined with the separator \<open>" | "\<close>; a column whose labels are all null or empty gets
  the empty text. It returns one text for each column, in the order of the columns, and
  has no failing case; so the assignment of the flattened header to the frame never
  raises and leaves the dtypes and the rows as they were.
\<close>

theorem flatten_columns_spec:
  "flatten_columns lib cols = map (\<lambda>c. spec_flatten_label lib (labels_of c)) cols \<and>
   length (flatten_columns lib cols) = length cols \<and>
   (\<forall>c \<in> set cols.
      (\<forall>x \<in> set (labels_of c). x = PyNone \<or> strip (py_str lib x) = []) \<longrightarrow>
      spec_flatten_label lib (labels_of c) = []) \<and>
   set_columns (DataFrame cols dts rs) (flatten_columns lib cols) =
     Inr (DataFrame (flatten_columns lib cols) dts rs)"
  by (simp add: flatten_columns_def flatten_loop_map spec_flatten_label_empty set_columns_def)

theorem flatten_columns_spec_witness:
  "list_all (\<lambda>x. x = PyNone \<or> strip (py_str toy_pandas x) = [])
     (labels_of (Tuple [Str [], PyNone, Str (lit ''  '') :: rat cell])) \<and>
   spec_flatten_label toy_pandas (labels_of (Tuple [Str [], PyNone, Str (lit ''  '')])) = [] \<and>
   flatten_columns toy_pandas
     [Tuple [Str (lit '' Store ''), PyNone, Str (lit ''Code'')],
      Tuple [Str [], PyNone, Str (lit ''  '')], Single (Str (lit ''Date ''))] =
     [lit ''Store | Code'', [], lit ''Date''] \<and>
   length (flatten_columns toy_pandas (columns example_raw)) = 17 \<and>
   flatten_columns toy_pandas (columns example_raw) =
     map lit [''No | Unnamed: 0_level_1'', ''Store | Code'', ''Store | Name'', ''Date'',
       ''Sales | Gross'', ''Sales | Net'', ''Sales | Disc'', ''Void | Item'', ''Void | Value'',
       ''Refund | Item'', ''Refund | Value'', ''Terminal'', [], ''Qty'', ''Trans'', ''ATV'',
       ''Remarks'']"
proof -
  let ?blank = "Tuple [Str [], PyNone, Str (lit ''  '')] :: rat label"
  let ?cols = "[Tuple [Str (lit '' Store ''), PyNone, Str (lit ''Code'')], ?blank,
                Single (Str (lit ''Date ''))]"
  have mem: "?blank \<in> set ?cols"
    by simp
  have blank: "list_all (\<lambda>x. x = PyNone \<or> strip (py_str toy_pandas x) = []) (labels_of ?blank)"
    by code_simp
  have run: "map (\<lambda>c. spec_flatten_label toy_pandas (labels_of c)) ?cols =
               [lit ''Store | Code'', [], lit ''Date'']"
    by code_simp
  have sheet: "map (\<lambda>c. spec_flatten_label toy_pandas (labels_of c)) (columns example_raw) =
     map lit [''No | Unnamed: 0_level_1'', ''Store | Code'', ''Store | Name'', ''Date'',
       ''Sales | Gross'', ''Sales | Net'', ''Sales | Disc'', ''Void | Item'', ''Void | Value'',
       ''Refund | Item'', ''Refund | Value'', ''Terminal'', [], ''Qty'', ''Trans'', ''ATV'',
       ''Remarks'']"
    by code_simp
  have n: "length (columns example_raw) = 17"
    by code_simp
  note inst = flatten_columns_spec
    [where lib = toy_pandas and cols = ?cols and dts = "[]" and rs = "[] :: rat cell list list"]
  note inst_sheet = flatten_columns_spec
    [where lib = toy_pandas and cols = "columns example_raw" and dts = "[]"
       and rs = "[] :: rat cell list list"]
  from inst mem blank have a: "spec_flatten_label toy_pandas (labels_of ?blank) = []"
    unfolding list_all_iff by blast
  from conjunct1 [OF inst] run
  have b: "flatten_columns toy_pandas ?cols = [lit ''Store | Code'', [], lit ''Date'']"
    by (simp only:)
  from conjunct1 [OF conjunct2 [OF inst_sheet]] n
  have c: "length (flatten_columns toy_pandas (columns example_raw)) = 17"
    by simp
  from conjunct1 [OF inst_sheet] sheet
  have d: "flatten_columns toy_pandas (columns example_raw) =
     map lit [''No | Unnamed: 0_level_1'', ''Store | Code'', ''Store | Name'', ''Date'',
       ''Sales | Gross'', ''Sales | Net'', ''Sales | Disc'', ''Void | Item'', ''Void | Value'',
       ''Refund | Item'', ''Refund | Value'', ''Terminal'', [], ''Qty'', ''Trans'', ''ATV'',
       ''Remarks'']"
    by (simp only:)
  from blank a b c d show ?thesis
    by (intro conjI)
qed

section \<open>Coercion of the numeric columns\<close>

text \<open>
  C5. \<open>_coerce_numeric\<close>, called with the ten numeric labels, replaces each cell of such a
  column by what \<open>pd.to_numeric\<close> reads in the text of the cell once its commas are
  removed: the number when there is one, NaN (a missing marker) when the text cannot be
  parsed. The call has no failing case, and the frame keeps its labels and all of its
  rows. The text \<open>1,200.50\<close> reaches the parser as \<open>1200.50\<close>.
\<close>

theorem coerce_numeric_cells:
  assumes "wf_frame df" "c \<in> NUMERIC_COLS" "index_of c (columns df) = Some j"
  shows "\<exists>texts out.
           out = coerce_numeric lib df (filter (\<lambda>c. c \<in> NUMERIC_COLS) FINAL_COLS) \<and>
           texts = map (\<lambda>x. replace_comma (py_str lib x)) (snd (column_at df j)) \<and>
           columns out = columns df \<and> length (rows out) = length (rows df) \<and>
           column_at out j =
             (Numeric, map (\<lambda>s. case to_numeric lib texts s of Some v \<Rightarrow> Num v | None \<Rightarrow> NaN) texts) \<and>
           replace_comma (lit ''1,200.50'') = lit ''1200.50'' \<and>
           card NUMERIC_COLS = 10 \<and> NUMERIC_COLS \<subseteq> set FINAL_COLS"
proof -
  let ?cs = "filter (\<lambda>c. c \<in> NUMERIC_COLS) FINAL_COLS"
  from assms(2) have "c \<in> set ?cs" by (simp only: numeric_list_set)
  from coerce_numeric_column [OF assms(1) numeric_list_distinct this assms(3), of lib]
  show ?thesis
    by (simp add: coerce_numeric_columns coerce_numeric_length_rows pd_to_numeric_def
        comma_free_text_def comma_example card_NUMERIC_COLS NUMERIC_COLS_in_FINAL_COLS)
qed

theorem coerce_numeric_cells_witness:
  "wf_frame example_sales \<and> lit ''Gross Sales'' \<in> NUMERIC_COLS \<and>
   index_of (lit ''Gross Sales'') (columns example_sales) = Some 1 \<and>
   to_numeric toy_pandas [lit ''1200.50'', lit ''abc'', lit ''<NA>''] (lit ''1200.50'') =
     Some (2401 / 2) \<and>
   coerce_numeric toy_pandas example_sales (filter (\<lambda>c. c \<in> NUMERIC_COLS) FINAL_COLS) =
     example_sales_coerced \<and>
   (\<exists>texts out.
      out = coerce_numeric toy_pandas example_sales (filter (\<lambda>c. c \<in> NUMERIC_COLS) FINAL_COLS) \<and>
      texts = map (\<lambda>x. replace_comma (py_str toy_pandas x)) (snd (column_at example_sales 1)) \<and>
      columns out = columns example_sales \<and> length (rows out) = length (rows example_sales) \<and>
      column_at out 1 =
        (Numeric,
         map (\<lambda>s. case to_numeric toy_pandas texts s of Some v \<Rightarrow> Num v | None \<Rightarrow> NaN) texts) \<and>
      replace_comma (lit ''1,200.50'') = lit ''1200.50'' \<and>
      card NUMERIC_COLS = 10 \<and> NUMERIC_COLS \<subseteq> set FINAL_COLS)"
proof (intro conjI)
  show wf: "wf_frame example_sales"
    by code_simp
  show num: "lit ''Gross Sales'' \<in> NUMERIC_COLS"
    by code_simp
  show idx: "index_of (lit ''Gross Sales'') (columns example_sales) = Some 1"
    by code_simp
  show "to_numeric toy_pandas [lit ''1200.50'', lit ''abc'', lit ''<NA>''] (lit ''1200.50'') =
     Some (2401 / 2)"
    by code_simp
  show "coerce_numeric toy_pandas example_sales (filter (\<lambda>c. c \<in> NUMERIC_COLS) FINAL_COLS) =
     example_sales_coerced"
    by code_simp
  show "\<exists>texts out.
      out = coerce_numeric toy_pandas example_sales (filter (\<lambda>c. c \<in> NUMERIC_COLS) FINAL_COLS) \<and>
      texts = map (\<lambda>x. replace_comma (py_str toy_pandas x)) (snd (column_at example_sales 1)) \<and>
      columns out = columns example_sales \<and> length (rows out) = length (rows example_sales) \<and>
      column_at out 1 =
        (Numeric,
         map (\<lambda>s. case to_numeric toy_pandas texts s of Some v \<Rightarrow> Num v | None \<Rightarrow> NaN) texts) \<and>
      replace_comma (lit ''1,200.50'') = lit ''1200.50'' \<and>
      card NUMERIC_COLS = 10 \<and> NUMERIC_COLS \<subseteq> set FINAL_COLS"
    by (rule coerce_numeric_cells [OF wf num idx])
qed

section \<open>Parsing of the dates\<close>



end
